theory Spec2Isabelle
  imports Complex_Main
begin

section \<open>Python values: errors, arithmetic that can raise, strings\<close>

text \<open>
  The two modules compute with Python floats. The embedding reads a float as the real
  number it denotes: \<open>+\<close>, \<open>*\<close>, \<open>/\<close>, \<open>**\<close> and \<open>math.sqrt\<close> are the exact real
  operations, so rounding, overflow, infinities and NaN of IEEE doubles are not part of
  the model. What the model does keep is every place where the Python raises: a missing
  dictionary key, a division by zero, a square root of a negative number.
\<close>

datatype error = ValueError string | ZeroDivisionError | KeyError string

definition bind_result :: "error + 'a \<Rightarrow> ('a \<Rightarrow> error + 'b) \<Rightarrow> error + 'b" where
  "bind_result r f = (case r of Inl e \<Rightarrow> Inl e | Inr x \<Rightarrow> f x)"

text \<open>\<open>math.sqrt(x)\<close>: raises \<open>ValueError("math domain error")\<close> on a negative argument.\<close>

definition math_sqrt :: "real \<Rightarrow> error + real" where
  "math_sqrt x = (if x < 0 then Inl (ValueError ''math domain error'') else Inr (sqrt x))"

text \<open>\<open>a / b\<close>: raises \<open>ZeroDivisionError\<close> when the divisor is zero.\<close>

definition truediv :: "real \<Rightarrow> real \<Rightarrow> error + real" where
  "truediv a b = (if b = 0 then Inl ZeroDivisionError else Inr (a / b))"

text \<open>
  \<open>str.lower()\<close> and \<open>str.upper()\<close> on ASCII text: the letters \<open>A\<close>..\<open>Z\<close> (codes 65..90)
  and \<open>a\<close>..\<open>z\<close> (codes 97..122) are exchanged, every other character is kept. All names
  of both catalogs are ASCII.
\<close>

definition lower_char :: "char \<Rightarrow> char" where
  "lower_char c =
     (let k = (of_char c :: nat) in if 65 \<le> k \<and> k \<le> 90 then char_of (k + 32) else c)"

definition upper_char :: "char \<Rightarrow> char" where
  "upper_char c =
     (let k = (of_char c :: nat) in if 97 \<le> k \<and> k \<le> 122 then char_of (k - 32) else c)"

definition lower_str :: "string \<Rightarrow> string" where
  "lower_str s = map lower_char s"

definition upper_str :: "string \<Rightarrow> string" where
  "upper_str s = map upper_char s"

section \<open>calculator\_solar\_system.py\<close>

subsection \<open>Constants and the PLANETS dictionary\<close>

definition AU :: real where
  "AU = 149597870.7"

definition G :: real where
  "G = 6.67430 / 10 ^ 11"

definition SUN_MASS :: real where
  "SUN_MASS = 1.989 * 10 ^ 30"

definition SOLAR_MASS_AU_YEAR :: real where
  "SOLAR_MASS_AU_YEAR = 4 * pi ^ 2"

text \<open>One inner dictionary of \<open>PLANETS\<close>; \<open>radius_km\<close> and \<open>moons\<close> are Python ints.\<close>

record planet_data =
  distance_au :: real
  mass_earth :: real
  radius_km :: int
  day_hours :: real
  year_days :: real
  moons :: int

definition PLANETS_items :: "(string \<times> planet_data) list" where
  "PLANETS_items =
    [(''Mercury'', \<lparr>distance_au = 0.387, mass_earth = 0.055, radius_km = 2440,
                    day_hours = 1408, year_days = 87.97, moons = 0\<rparr>),
     (''Venus'', \<lparr>distance_au = 0.723, mass_earth = 0.815, radius_km = 6052,
                  day_hours = 5832, year_days = 224.70, moons = 0\<rparr>),
     (''Earth'', \<lparr>distance_au = 1.0, mass_earth = 1.0, radius_km = 6371,
                  day_hours = 24, year_days = 365.25, moons = 1\<rparr>),
     (''Mars'', \<lparr>distance_au = 1.524, mass_earth = 0.107, radius_km = 3390,
                 day_hours = 24.6, year_days = 686.97, moons = 2\<rparr>),
     (''Jupiter'', \<lparr>distance_au = 5.203, mass_earth = 317.8, radius_km = 69911,
                    day_hours = 9.9, year_days = 4331, moons = 95\<rparr>),
     (''Saturn'', \<lparr>distance_au = 9.537, mass_earth = 95.2, radius_km = 58232,
                   day_hours = 10.7, year_days = 10747, moons = 146\<rparr>),
     (''Uranus'', \<lparr>distance_au = 19.191, mass_earth = 14.5, radius_km = 25362,
                   day_hours = 17.2, year_days = 30589, moons = 27\<rparr>),
     (''Neptune'', \<lparr>distance_au = 30.069, mass_earth = 17.1, radius_km = 24622,
                    day_hours = 16.1, year_days = 59800, moons = 14\<rparr>)]"

definition PLANETS :: "string \<rightharpoonup> planet_data" where
  "PLANETS = map_of PLANETS_items"

text \<open>\<open>PLANETS[key]\<close>: raises \<open>KeyError\<close> on a missing key.\<close>

definition PLANETS_getitem :: "string \<Rightarrow> error + planet_data" where
  "PLANETS_getitem k = (case PLANETS k of None \<Rightarrow> Inl (KeyError k) | Some d \<Rightarrow> Inr d)"

text \<open>The message of the f-string \<open>f"Planet {planet_name} not found"\<close>.\<close>

definition not_found :: "string \<Rightarrow> error" where
  "not_found planet_name = ValueError (''Planet '' @ planet_name @ '' not found'')"

subsection \<open>The scalar functions\<close>

definition orbital_period_kepler :: "real \<Rightarrow> error + real" where
  "orbital_period_kepler semi_major_axis_au = math_sqrt (semi_major_axis_au ^ 3)"

definition orbital_velocity :: "real \<Rightarrow> error + real" where
  "orbital_velocity semi_major_axis_au =
     (let semi_major_axis_m = semi_major_axis_au * AU * 1000 in
      bind_result (truediv (G * SUN_MASS) semi_major_axis_m) (\<lambda>q.
      bind_result (math_sqrt q) (\<lambda>velocity_m_s.
      Inr (velocity_m_s / 1000))))"

definition distance_au_to_km :: "real \<Rightarrow> real" where
  "distance_au_to_km d = d * AU"


subsection \<open>The functions that look a planet up by name\<close>

text \<open>
  Each function first tests \<open>planet_name not in PLANETS\<close>, an exact match on the keys,
  and raises \<open>ValueError\<close> if so. \<open>escape_velocity\<close> also computes
  \<open>radius_m = planet['radius_km'] * 1000\<close> and never reads it again; the product of two
  ints cannot raise, so the model leaves it out.
\<close>

definition escape_velocity :: "string \<Rightarrow> error + real" where
  "escape_velocity planet_name =
     (if PLANETS planet_name = None then Inl (not_found planet_name)
      else
        bind_result (PLANETS_getitem planet_name) (\<lambda>planet.
        let earth_escape_v = 11.186;
            mass_ratio = mass_earth planet in
        bind_result (PLANETS_getitem ''Earth'') (\<lambda>earth.
        bind_result (truediv (real_of_int (radius_km planet)) (real_of_int (radius_km earth)))
          (\<lambda>radius_ratio.
        bind_result (truediv mass_ratio radius_ratio) (\<lambda>q.
        bind_result (math_sqrt q) (\<lambda>root.
        Inr (earth_escape_v * root)))))))"

definition surface_gravity :: "string \<Rightarrow> error + real" where
  "surface_gravity planet_name =
     (if PLANETS planet_name = None then Inl (not_found planet_name)
      else
        bind_result (PLANETS_getitem planet_name) (\<lambda>planet.
        let mass_ratio = mass_earth planet in
        bind_result (PLANETS_getitem ''Earth'') (\<lambda>earth.
        bind_result (truediv (real_of_int (radius_km planet)) (real_of_int (radius_km earth)))
          (\<lambda>radius_ratio.
        truediv mass_ratio (radius_ratio ^ 2)))))"

text \<open>The dictionary that \<open>planetary_info\<close> returns, one field per key, in the key order.\<close>

record planet_info =
  info_name :: string
  info_distance_au :: real
  info_distance_km :: real
  info_orbital_period_years :: real
  info_orbital_velocity_km_s :: real
  info_radius_km :: int
  info_surface_area_km2 :: real
  info_volume_km3 :: real
  info_mass_earth_masses :: real
  info_surface_gravity_g :: real
  info_escape_velocity_km_s :: real
  info_day_hours :: real
  info_year_days :: real
  info_moons :: int

definition planetary_info :: "string \<Rightarrow> error + planet_info" where
  "planetary_info planet_name =
     (if PLANETS planet_name = None then Inl (not_found planet_name)
      else
        bind_result (PLANETS_getitem planet_name) (\<lambda>planet.
        bind_result (orbital_period_kepler (distance_au planet)) (\<lambda>period.
        bind_result (orbital_velocity (distance_au planet)) (\<lambda>velocity.
        bind_result (surface_gravity planet_name) (\<lambda>gravity.
        bind_result (escape_velocity planet_name) (\<lambda>escape_v.
        Inr \<lparr>info_name = planet_name,
             info_distance_au = distance_au planet,
             info_distance_km = distance_au_to_km (distance_au planet),
             info_orbital_period_years = period,
             info_orbital_velocity_km_s = velocity,
             info_radius_km = radius_km planet,
             info_surface_area_km2 = 4 * pi * real_of_int (radius_km planet ^ 2),
             info_volume_km3 = (4 / 3) * pi * real_of_int (radius_km planet ^ 3),
             info_mass_earth_masses = mass_earth planet,
             info_surface_gravity_g = gravity,
             info_escape_velocity_km_s = escape_v,
             info_day_hours = day_hours planet,
             info_year_days = year_days planet,
             info_moons = moons planet\<rparr>))))))"

text \<open>
  The dictionary that \<open>habitability_check\<close> returns. \<open>has_stable_orbit\<close> is a local
  variable of the function and is not a key of the result; the key \<open>planet\<close> is the
  field \<open>hab_planet\<close> and the key \<open>notes\<close> the field \<open>hab_notes\<close>.
\<close>

record habitability =
  hab_planet :: string
  in_habitable_zone :: bool
  suitable_surface_gravity :: bool
  habitability_score :: int
  hab_notes :: string

definition habitability_notes :: string where
  "habitability_notes =
     ''This is a highly simplified assessment and does not consider atmosphere, magnetic field, or other factors.''"

definition habitability_check :: "string \<Rightarrow> error + habitability" where
  "habitability_check planet_name =
     (if PLANETS planet_name = None then Inl (not_found planet_name)
      else
        bind_result (planetary_info planet_name) (\<lambda>info.
        let zone = (0.95 < info_distance_au info \<and> info_distance_au info < 1.37);
            suitable_gravity =
              (0.5 < info_surface_gravity_g info \<and> info_surface_gravity_g info < 2.0);
            has_stable_orbit = True;
            score = sum_list (map of_bool [zone, suitable_gravity, has_stable_orbit])
        in Inr \<lparr>hab_planet = planet_name,
                in_habitable_zone = zone,
                suitable_surface_gravity = suitable_gravity,
                habitability_score = score,
                hab_notes = habitability_notes\<rparr>))"

section \<open>solar\_system.py\<close>

datatype PlanetType = TERRESTRIAL | GASEOUS | ICE_GIANT

text \<open>
  The dataclass \<open>Planet\<close>. Its attribute \<open>moons\<close> is the field \<open>planet_moons\<close> here,
  since \<open>moons\<close> already names a key of the \<open>PLANETS\<close> dictionary.
\<close>

record Planet =
  name :: string
  planet_type :: PlanetType
  distance_from_sun_au :: real
  diameter_km :: int
  mass_relative_to_earth :: real
  orbital_period_days :: real
  rotation_period_hours :: real
  planet_moons :: int
  temperature_celsius :: int
  composition :: string
  interesting_facts :: "string list"

subsection \<open>The eight planets that \<open>_create_planets\<close> builds\<close>

definition mercury :: Planet where
  "mercury =
     \<lparr>name = ''Mercury'',
      planet_type = TERRESTRIAL,
      distance_from_sun_au = 0.39,
      diameter_km = 4879,
      mass_relative_to_earth = 0.055,
      orbital_period_days = 87.97,
      rotation_period_hours = 1407.6,
      planet_moons = 0,
      temperature_celsius = 167,
      composition = ''Iron core, rocky surface'',
      interesting_facts =
         [''Closest planet to the Sun'',
          ''Smallest planet in our solar system'',
          ''Has extreme temperature variations between day and night'',
          ''Named after the Roman messenger god'',
          ''Has no atmosphere'']\<rparr>"

definition venus :: Planet where
  "venus =
     \<lparr>name = ''Venus'',
      planet_type = TERRESTRIAL,
      distance_from_sun_au = 0.72,
      diameter_km = 12104,
      mass_relative_to_earth = 0.815,
      orbital_period_days = 224.70,
      rotation_period_hours = 2802.0,
      planet_moons = 0,
      temperature_celsius = 464,
      composition = ''Carbon dioxide atmosphere, rocky surface'',
      interesting_facts =
         [''Hottest planet in our solar system'',
          ''Similar in size to Earth'',
          ''Rotates backwards compared to most planets'',
          ''Rotates slower than it orbits the Sun'',
          ''Has a thick, toxic atmosphere with sulfuric acid clouds'']\<rparr>"

definition earth :: Planet where
  "earth =
     \<lparr>name = ''Earth'',
      planet_type = TERRESTRIAL,
      distance_from_sun_au = 1.00,
      diameter_km = 12742,
      mass_relative_to_earth = 1.0,
      orbital_period_days = 365.25,
      rotation_period_hours = 24.0,
      planet_moons = 1,
      temperature_celsius = 15,
      composition = ''Iron core, rocky crust, water oceans'',
      interesting_facts =
         [''Only known planet with life'',
          ''Has one natural satellite: the Moon'',
          ''Covers about 71% water'',
          ''Has a protective magnetic field'',
          ''The perfect distance from the Sun for liquid water'']\<rparr>"

definition mars :: Planet where
  "mars =
     \<lparr>name = ''Mars'',
      planet_type = TERRESTRIAL,
      distance_from_sun_au = 1.52,
      diameter_km = 6779,
      mass_relative_to_earth = 0.107,
      orbital_period_days = 686.971,
      rotation_period_hours = 24.6,
      planet_moons = 2,
      temperature_celsius = -65,
      composition = ''Iron oxide surface, thin CO2 atmosphere'',
      interesting_facts =
         [''Known as the Red Planet due to iron oxide in soil'',
          ''Has the largest volcano in the solar system (Olympus Mons)'',
          ''Home to Valles Marineris, the largest canyon'',
          ''A potential candidate for future human colonization'',
          ''Has two small moons: Phobos and Deimos'']\<rparr>"

definition jupiter :: Planet where
  "jupiter =
     \<lparr>name = ''Jupiter'',
      planet_type = GASEOUS,
      distance_from_sun_au = 5.20,
      diameter_km = 139820,
      mass_relative_to_earth = 317.8,
      orbital_period_days = 4332.89,
      rotation_period_hours = 9.9,
      planet_moons = 95,
      temperature_celsius = -110,
      composition = ''Hydrogen and helium gas with rocky core'',
      interesting_facts =
         [''Largest planet in our solar system'',
          ''Has a Great Red Spot (storm larger than Earth)'',
          ''Has at least 95 known moons'',
          ''Rotates faster than any other planet'',
          ''Has a powerful magnetic field and faint ring system'']\<rparr>"

definition saturn :: Planet where
  "saturn =
     \<lparr>name = ''Saturn'',
      planet_type = GASEOUS,
      distance_from_sun_au = 9.54,
      diameter_km = 116460,
      mass_relative_to_earth = 95.2,
      orbital_period_days = 10759.22,
      rotation_period_hours = 10.7,
      planet_moons = 146,
      temperature_celsius = -140,
      composition = ''Hydrogen and helium gas with rocky core'',
      interesting_facts =
         [''Famous for its spectacular ring system'',
          ''Second largest planet in our solar system'',
          ''The least dense planet - would float in water'',
          ''Has over 146 known moons'',
          ''Titan, its largest moon, has a thick atmosphere'']\<rparr>"

definition uranus :: Planet where
  "uranus =
     \<lparr>name = ''Uranus'',
      planet_type = ICE_GIANT,
      distance_from_sun_au = 19.19,
      diameter_km = 50724,
      mass_relative_to_earth = 14.5,
      orbital_period_days = 30688.5,
      rotation_period_hours = 17.2,
      planet_moons = 28,
      temperature_celsius = -195,
      composition = ''Water, methane, ammonia ices with rocky core'',
      interesting_facts =
         [''Rotates on its side (axial tilt of 98 degrees)'',
          ''Appears as a featureless blue-green sphere'',
          ''Has a faint ring system'',
          ''Named after the Greek god of the sky'',
          ''Methane in its atmosphere gives it its blue color'']\<rparr>"

definition neptune :: Planet where
  "neptune =
     \<lparr>name = ''Neptune'',
      planet_type = ICE_GIANT,
      distance_from_sun_au = 30.07,
      diameter_km = 49244,
      mass_relative_to_earth = 17.1,
      orbital_period_days = 60182.0,
      rotation_period_hours = 16.1,
      planet_moons = 16,
      temperature_celsius = -200,
      composition = ''Water, methane, ammonia ices with rocky core'',
      interesting_facts =
         [''Farthest planet from the Sun in our solar system'',
          ''Coldest planetary atmosphere'',
          ''Has the strongest winds in the solar system'',
          ''Named after the Roman god of the sea'',
          ''Has a dark spot (similar to Jupiter's Great Red Spot)'']\<rparr>"

definition create_planets :: "Planet list" where
  "create_planets = [mercury, venus, earth, mars, jupiter, saturn, uranus, neptune]"

text \<open>The class \<open>SolarSystem\<close>: its only attribute is the list \<open>planets\<close>.\<close>

record SolarSystem =
  planets :: "Planet list"

definition SolarSystem_init :: SolarSystem where
  "SolarSystem_init = \<lparr>planets = create_planets\<rparr>"

text \<open>
  The loop of \<open>get_planet_by_name\<close>: the first planet whose lower-cased name equals the
  lower-cased argument, and Python's \<open>None\<close> when the loop ends without a match.
\<close>

fun first_match :: "Planet list \<Rightarrow> string \<Rightarrow> Planet option" where
  "first_match [] nm = None"
| "first_match (planet # rest) nm =
     (if lower_str (name planet) = lower_str nm then Some planet else first_match rest nm)"

text \<open>
  \<open>get_planet_by_name\<close> has no \<open>raise\<close>: it always returns, either a planet or \<open>None\<close>.
  Its result has the type of the other lookups so that returning \<open>None\<close> (\<open>Inr None\<close>)
  and raising (\<open>Inl e\<close>) are told apart.
\<close>

definition get_planet_by_name :: "SolarSystem \<Rightarrow> string \<Rightarrow> error + Planet option" where
  "get_planet_by_name self nm = Inr (first_match (planets self) nm)"

section \<open>Facts about the model\<close>

subsection \<open>Error propagation and the catalog of calculator\_solar\_system.py\<close>

lemma bind_result_Inr [simp]: "bind_result (Inr x) f = f x"
  by (simp add: bind_result_def)

lemma bind_result_Inl [simp]: "bind_result (Inl e) f = Inl e"
  by (simp add: bind_result_def)

lemma math_sqrt_nonneg: "0 \<le> x \<Longrightarrow> math_sqrt x = Inr (sqrt x)"
  by (simp add: math_sqrt_def)

lemma truediv_nonzero: "b \<noteq> 0 \<Longrightarrow> truediv a b = Inr (a / b)"
  by (simp add: truediv_def)

lemma PLANETS_in_items: "PLANETS n = Some p \<Longrightarrow> (n, p) \<in> set PLANETS_items"
  unfolding PLANETS_def by (rule map_of_SomeD)

lemma PLANETS_positive:
  assumes "PLANETS n = Some p"
  shows "0 < radius_km p" and "0 < mass_earth p" and "0 < distance_au p"
  using PLANETS_in_items [OF assms] by (auto simp: PLANETS_items_def)

lemma PLANETS_Earth:
  "PLANETS ''Earth'' = Some \<lparr>distance_au = 1.0, mass_earth = 1.0, radius_km = 6371,
                  day_hours = 24, year_days = 365.25, moons = 1\<rparr>"
  by (simp add: PLANETS_def PLANETS_items_def)

lemma PLANETS_getitem_Some: "PLANETS n = Some p \<Longrightarrow> PLANETS_getitem n = Inr p"
  by (simp add: PLANETS_getitem_def)

lemma escape_velocity_found:
  assumes "PLANETS n = Some p"
  shows "escape_velocity n = Inr (11.186 * sqrt (mass_earth p / (real_of_int (radius_km p) / 6371)))"
proof -
  have r: "real_of_int (radius_km p) / 6371 \<noteq> 0"
    using PLANETS_positive(1) [OF assms] by simp
  have q: "0 \<le> mass_earth p / (real_of_int (radius_km p) / 6371)"
    using PLANETS_positive(1,2) [OF assms] by simp
  show ?thesis
    using assms r q
    by (simp add: escape_velocity_def PLANETS_getitem_Some PLANETS_Earth
        truediv_nonzero math_sqrt_nonneg)
qed

lemma surface_gravity_found:
  assumes "PLANETS n = Some p"
  shows "surface_gravity n = Inr (mass_earth p / (real_of_int (radius_km p) / 6371) ^ 2)"
proof -
  have r: "(real_of_int (radius_km p) / 6371) ^ 2 \<noteq> 0"
    using PLANETS_positive(1) [OF assms] by simp
  show ?thesis
    using assms r
    by (simp add: surface_gravity_def PLANETS_getitem_Some PLANETS_Earth
        truediv_nonzero del: power_eq_0_iff)
qed

lemma orbital_velocity_positive:
  assumes "0 < a"
  shows "orbital_velocity a = Inr (sqrt (G * SUN_MASS / (a * AU * 1000)) / 1000)"
proof -
  have m: "a * AU * 1000 \<noteq> 0"
    using assms by (simp add: AU_def)
  have q: "0 \<le> G * SUN_MASS / (a * AU * 1000)"
    using assms by (simp add: AU_def G_def SUN_MASS_def)
  show ?thesis
    using m q by (simp add: orbital_velocity_def Let_def truediv_nonzero math_sqrt_nonneg)
qed

lemma orbital_period_kepler_nonneg:
  "0 \<le> a \<Longrightarrow> orbital_period_kepler a = Inr (sqrt (a ^ 3))"
  by (simp add: orbital_period_kepler_def math_sqrt_nonneg)

lemma planetary_info_found:
  assumes "PLANETS n = Some p"
  shows "planetary_info n =
     Inr \<lparr>info_name = n,
          info_distance_au = distance_au p,
          info_distance_km = distance_au_to_km (distance_au p),
          info_orbital_period_years = sqrt (distance_au p ^ 3),
          info_orbital_velocity_km_s = sqrt (G * SUN_MASS / (distance_au p * AU * 1000)) / 1000,
          info_radius_km = radius_km p,
          info_surface_area_km2 = 4 * pi * real_of_int (radius_km p ^ 2),
          info_volume_km3 = (4 / 3) * pi * real_of_int (radius_km p ^ 3),
          info_mass_earth_masses = mass_earth p,
          info_surface_gravity_g = mass_earth p / (real_of_int (radius_km p) / 6371) ^ 2,
          info_escape_velocity_km_s =
            11.186 * sqrt (mass_earth p / (real_of_int (radius_km p) / 6371)),
          info_day_hours = day_hours p,
          info_year_days = year_days p,
          info_moons = moons p\<rparr>"
proof -
  have d: "0 < distance_au p"
    by (rule PLANETS_positive(3) [OF assms])
  then have d0: "0 \<le> distance_au p"
    by simp
  show ?thesis
    by (simp add: planetary_info_def assms PLANETS_getitem_Some
        orbital_period_kepler_nonneg [OF d0] orbital_velocity_positive [OF d]
        surface_gravity_found [OF assms] escape_velocity_found [OF assms])
qed

lemma habitability_check_found:
  assumes "PLANETS n = Some p"
  shows "habitability_check n =
     Inr \<lparr>hab_planet = n,
          in_habitable_zone = (0.95 < distance_au p \<and> distance_au p < 1.37),
          suitable_surface_gravity =
            (0.5 < mass_earth p / (real_of_int (radius_km p) / 6371) ^ 2 \<and>
             mass_earth p / (real_of_int (radius_km p) / 6371) ^ 2 < 2.0),
          habitability_score =
            of_bool (0.95 < distance_au p \<and> distance_au p < 1.37) +
            of_bool (0.5 < mass_earth p / (real_of_int (radius_km p) / 6371) ^ 2 \<and>
                     mass_earth p / (real_of_int (radius_km p) / 6371) ^ 2 < 2.0) +
            of_bool True,
          hab_notes = habitability_notes\<rparr>"
  by (simp add: habitability_check_def assms planetary_info_found [OF assms] Let_def)

lemma PLANETS_Mercury:
  "PLANETS ''Mercury'' = Some \<lparr>distance_au = 0.387, mass_earth = 0.055, radius_km = 2440,
                    day_hours = 1408, year_days = 87.97, moons = 0\<rparr>"
  by (simp add: PLANETS_def PLANETS_items_def)

lemma habitability_check_Earth:
  "habitability_check ''Earth'' =
     Inr \<lparr>hab_planet = ''Earth'', in_habitable_zone = True, suitable_surface_gravity = True,
          habitability_score = 3, hab_notes = habitability_notes\<rparr>"
  by (simp add: habitability_check_found [OF PLANETS_Earth])

lemma habitability_check_Mercury:
  "habitability_check ''Mercury'' =
     Inr \<lparr>hab_planet = ''Mercury'', in_habitable_zone = False, suitable_surface_gravity = False,
          habitability_score = 1, hab_notes = habitability_notes\<rparr>"
proof -
  have "\<not> (0.5 < (0.055::real) / (real_of_int 2440 / 6371) ^ 2)"
    by (simp add: power2_eq_square)
  then show ?thesis
    by (simp add: habitability_check_found [OF PLANETS_Mercury])
qed


subsection \<open>Case mapping and the planet list of solar\_system.py\<close>

lemma lower_upper_char: "lower_char (upper_char c) = lower_char c"
proof -
  have k: "(of_char c :: nat) < 256"
    by simp
  show ?thesis
    using k by (auto simp: lower_char_def upper_char_def Let_def)
qed

lemma lower_lower_char: "lower_char (lower_char c) = lower_char c"
proof -
  have k: "(of_char c :: nat) < 256"
    by simp
  show ?thesis
    using k by (auto simp: lower_char_def Let_def)
qed

lemma lower_upper_str: "lower_str (upper_str s) = lower_str s"
  by (simp add: lower_str_def upper_str_def lower_upper_char)

lemma lower_lower_str: "lower_str (lower_str s) = lower_str s"
  by (simp add: lower_str_def lower_lower_char)

lemma first_match_distinct:
  "distinct (map (\<lambda>q. lower_str (name q)) ps) \<Longrightarrow> p \<in> set ps \<Longrightarrow>
   lower_str nm = lower_str (name p) \<Longrightarrow> first_match ps nm = Some p"
proof (induction ps)
  case Nil
  then show ?case by simp
next
  case (Cons q ps)
  show ?case
  proof (cases "p = q")
    case True
    with Cons.prems show ?thesis by simp
  next
    case False
    with Cons.prems have "p \<in> set ps"
      by simp
    moreover from this Cons.prems(1) have "lower_str (name q) \<noteq> lower_str (name p)"
      by auto
    ultimately show ?thesis
      using Cons by simp
  qed
qed

lemma first_match_none:
  "lower_str nm \<notin> set (map (\<lambda>q. lower_str (name q)) ps) \<Longrightarrow> first_match ps nm = None"
  by (induction ps) auto

lemma lowered_names:
  "map (\<lambda>q. lower_str (name q)) create_planets =
     [''mercury'', ''venus'', ''earth'', ''mars'', ''jupiter'', ''saturn'', ''uranus'', ''neptune'']"
  by (simp add: create_planets_def mercury_def venus_def earth_def mars_def jupiter_def
      saturn_def uranus_def neptune_def lower_str_def lower_char_def char_of_def bit_Suc_0_iff)

lemma distinct_lowered_names: "distinct (map (\<lambda>q. lower_str (name q)) create_planets)"
  unfolding lowered_names by simp

lemma PLANETS_keys:
  "map fst PLANETS_items =
     [''Mercury'', ''Venus'', ''Earth'', ''Mars'', ''Jupiter'', ''Saturn'', ''Uranus'', ''Neptune'']"
  by (simp add: PLANETS_items_def)

lemma PLANETS_None: "n \<notin> set (map fst PLANETS_items) \<Longrightarrow> PLANETS n = None"
  unfolding PLANETS_def by (simp add: map_of_eq_None_iff)

lemma PLANETS_Uranus:
  "PLANETS ''Uranus'' = Some \<lparr>distance_au = 19.191, mass_earth = 14.5, radius_km = 25362,
                   day_hours = 17.2, year_days = 30589, moons = 27\<rparr>"
  by (simp add: PLANETS_def PLANETS_items_def)

section \<open>The claims\<close>

text \<open>
  Claim C1, as stated, fails for the calculator module: its functions test
  \<open>planet_name not in PLANETS\<close>, an exact match on the dictionary keys, so the
  lower-cased name of Earth is not found while \<open>''Earth''\<close> is.
\<close>

theorem lookup_case_sensitive_counterexample:
  "planetary_info (lower_str ''Earth'') = Inl (ValueError ''Planet earth not found'') \<and>
   planetary_info (lower_str ''Earth'') \<noteq> planetary_info ''Earth''"
proof -
  have l: "lower_str ''Earth'' = ''earth''"
    by (simp add: lower_str_def lower_char_def char_of_def bit_Suc_0_iff)
  have "PLANETS ''earth'' = None"
    by (rule PLANETS_None) (simp add: PLANETS_keys)
  then have "planetary_info ''earth'' = Inl (ValueError ''Planet earth not found'')"
    by (simp add: planetary_info_def not_found_def)
  then show ?thesis
    by (simp add: l planetary_info_found [OF PLANETS_Earth])
qed

text \<open>
  Claim C1, amended. Lookup through \<open>SolarSystem.get_planet_by_name\<close> is
  case-insensitive: for every planet \<open>p\<close> of the solar system and every case variant
  \<open>m\<close> of its name (any \<open>m\<close> with \<open>m.lower() == p.name.lower()\<close>, in particular the name
  upper-cased or lower-cased) the lookup returns the same record \<open>p\<close> as for the name
  itself.
\<close>

theorem get_planet_by_name_case_insensitive:
  "\<forall>p \<in> set (planets SolarSystem_init).
     get_planet_by_name SolarSystem_init (name p) = Inr (Some p) \<and>
     get_planet_by_name SolarSystem_init (upper_str (name p)) = Inr (Some p) \<and>
     get_planet_by_name SolarSystem_init (lower_str (name p)) = Inr (Some p) \<and>
     (\<forall>m. lower_str m = lower_str (name p) \<longrightarrow>
        get_planet_by_name SolarSystem_init m = Inr (Some p))"
proof
  fix p
  assume "p \<in> set (planets SolarSystem_init)"
  then have p: "p \<in> set create_planets"
    by (simp add: SolarSystem_init_def)
  have found: "get_planet_by_name SolarSystem_init m = Inr (Some p)"
    if "lower_str m = lower_str (name p)" for m
    using first_match_distinct [OF distinct_lowered_names p that]
    by (simp add: get_planet_by_name_def SolarSystem_init_def)
  show "get_planet_by_name SolarSystem_init (name p) = Inr (Some p) \<and>
     get_planet_by_name SolarSystem_init (upper_str (name p)) = Inr (Some p) \<and>
     get_planet_by_name SolarSystem_init (lower_str (name p)) = Inr (Some p) \<and>
     (\<forall>m. lower_str m = lower_str (name p) \<longrightarrow>
        get_planet_by_name SolarSystem_init m = Inr (Some p))"
    using found by (simp add: lower_upper_str lower_lower_str)
qed

theorem get_planet_by_name_case_insensitive_witness:
  "earth \<in> set (planets SolarSystem_init) \<and>
   lower_str ''eARTh'' = lower_str (name earth) \<and>
   get_planet_by_name SolarSystem_init ''eARTh'' = Inr (Some earth) \<and>
   get_planet_by_name SolarSystem_init ''EARTH'' = Inr (Some earth) \<and>
   get_planet_by_name SolarSystem_init ''earth'' = Inr (Some earth)"
proof -
  have e: "earth \<in> set (planets SolarSystem_init)"
    by (simp add: SolarSystem_init_def create_planets_def)
  have l: "lower_str ''eARTh'' = lower_str (name earth)"
    by (simp add: earth_def lower_str_def lower_char_def char_of_def bit_Suc_0_iff)
  have u: "upper_str (name earth) = ''EARTH''"
    by (simp add: earth_def upper_str_def upper_char_def char_of_def bit_Suc_0_iff)
  have lo: "lower_str (name earth) = ''earth''"
    by (simp add: earth_def lower_str_def lower_char_def char_of_def bit_Suc_0_iff)
  from get_planet_by_name_case_insensitive [rule_format, OF e]
  have "get_planet_by_name SolarSystem_init (upper_str (name earth)) = Inr (Some earth)"
    and "get_planet_by_name SolarSystem_init (lower_str (name earth)) = Inr (Some earth)"
    and "\<And>m. lower_str m = lower_str (name earth) \<Longrightarrow>
        get_planet_by_name SolarSystem_init m = Inr (Some earth)"
    by simp_all
  then show ?thesis
    using e l by (simp add: u lo)
qed

text \<open>
  Claim C2, as stated, fails for the catalog lookup: for the unknown name
  \<open>''Pluto''\<close> \<open>get_planet_by_name\<close> does not raise, it returns \<open>None\<close>, while
  \<open>escape_velocity\<close> raises \<open>ValueError\<close>.
\<close>

theorem get_planet_by_name_returns_None_counterexample:
  "get_planet_by_name SolarSystem_init ''Pluto'' = Inr None \<and>
   escape_velocity ''Pluto'' = Inl (ValueError ''Planet Pluto not found'')"
proof -
  have "lower_str ''Pluto'' \<notin> set (map (\<lambda>q. lower_str (name q)) create_planets)"
    unfolding lowered_names
    by (simp add: lower_str_def lower_char_def char_of_def bit_Suc_0_iff)
  then have "first_match create_planets ''Pluto'' = None"
    by (rule first_match_none)
  moreover have "PLANETS ''Pluto'' = None"
    by (rule PLANETS_None) (simp add: PLANETS_keys)
  ultimately show ?thesis
    by (simp add: get_planet_by_name_def SolarSystem_init_def escape_velocity_def not_found_def)
qed

text \<open>
  Claim C2, amended. For every name that is not a key of \<open>PLANETS\<close> each of
  \<open>escape_velocity\<close>, \<open>surface_gravity\<close>, \<open>planetary_info\<close> and \<open>habitability_check\<close>
  raises the same \<open>ValueError\<close> with the message \<open>Planet <name> not found\<close> and
  returns nothing. \<open>get_planet_by_name\<close> never raises: for every name that equals no
  planet's name after lower-casing it returns \<open>None\<close>.
\<close>

theorem unknown_name_spec:
  "(\<forall>n. n \<notin> set (map fst PLANETS_items) \<longrightarrow>
      escape_velocity n = Inl (ValueError (''Planet '' @ n @ '' not found'')) \<and>
      surface_gravity n = Inl (ValueError (''Planet '' @ n @ '' not found'')) \<and>
      planetary_info n = Inl (ValueError (''Planet '' @ n @ '' not found'')) \<and>
      habitability_check n = Inl (ValueError (''Planet '' @ n @ '' not found''))) \<and>
   (\<forall>n. lower_str n \<notin> set (map (\<lambda>p. lower_str (name p)) (planets SolarSystem_init)) \<longrightarrow>
      get_planet_by_name SolarSystem_init n = Inr None)"
proof (intro conjI allI impI)
  fix n
  assume "lower_str n \<notin> set (map (\<lambda>p. lower_str (name p)) (planets SolarSystem_init))"
  then show "get_planet_by_name SolarSystem_init n = Inr None"
    by (simp add: get_planet_by_name_def first_match_none)
qed (simp_all add: PLANETS_None escape_velocity_def surface_gravity_def planetary_info_def
    habitability_check_def not_found_def)

theorem unknown_name_spec_witness:
  "''Pluto'' \<notin> set (map fst PLANETS_items) \<and>
   lower_str ''Pluto'' \<notin> set (map (\<lambda>p. lower_str (name p)) (planets SolarSystem_init)) \<and>
   escape_velocity ''Pluto'' = Inl (ValueError ''Planet Pluto not found'') \<and>
   surface_gravity ''Pluto'' = Inl (ValueError ''Planet Pluto not found'') \<and>
   planetary_info ''Pluto'' = Inl (ValueError ''Planet Pluto not found'') \<and>
   habitability_check ''Pluto'' = Inl (ValueError ''Planet Pluto not found'') \<and>
   get_planet_by_name SolarSystem_init ''Pluto'' = Inr None"
proof -
  have k: "''Pluto'' \<notin> set (map fst PLANETS_items)"
    by (simp add: PLANETS_keys)
  have l: "lower_str ''Pluto'' \<notin> set (map (\<lambda>p. lower_str (name p)) (planets SolarSystem_init))"
    unfolding SolarSystem_init_def SolarSystem.simps lowered_names
    by (simp add: lower_str_def lower_char_def char_of_def bit_Suc_0_iff)
  show ?thesis
    using unknown_name_spec [THEN conjunct1, rule_format, OF k]
      unknown_name_spec [THEN conjunct2, rule_format, OF l] k l
    by simp
qed



text \<open>
  Claim C4. For Earth \<open>escape_velocity\<close> returns the reference constant \<open>11.186\<close> km/s,
  and for every planet of \<open>PLANETS\<close> it returns
  \<open>11.186 * sqrt (mass_earth / radius_ratio)\<close>, where \<open>radius_ratio\<close> is the planet's
  \<open>radius_km\<close> divided by Earth's \<open>radius_km\<close>.
\<close>

theorem escape_velocity_spec:
  "escape_velocity ''Earth'' = Inr 11.186 \<and>
   (\<forall>n p e. PLANETS n = Some p \<and> PLANETS ''Earth'' = Some e \<longrightarrow>
      escape_velocity n =
        Inr (11.186 * sqrt (mass_earth p / (real_of_int (radius_km p) / real_of_int (radius_km e)))))"
proof (intro conjI allI impI)
  show "escape_velocity ''Earth'' = Inr 11.186"
    by (simp add: escape_velocity_found [OF PLANETS_Earth])
next
  fix n p e
  assume h: "PLANETS n = Some p \<and> PLANETS ''Earth'' = Some e"
  then have "radius_km e = 6371"
    by (auto simp: PLANETS_Earth)
  then show "escape_velocity n =
        Inr (11.186 * sqrt (mass_earth p / (real_of_int (radius_km p) / real_of_int (radius_km e))))"
    using h by (simp add: escape_velocity_found)
qed

theorem escape_velocity_spec_witness:
  "PLANETS ''Mars'' = Some \<lparr>distance_au = 1.524, mass_earth = 0.107, radius_km = 3390,
                 day_hours = 24.6, year_days = 686.97, moons = 2\<rparr> \<and>
   PLANETS ''Earth'' = Some \<lparr>distance_au = 1.0, mass_earth = 1.0, radius_km = 6371,
                  day_hours = 24, year_days = 365.25, moons = 1\<rparr> \<and>
   escape_velocity ''Mars'' = Inr (11.186 * sqrt (0.107 / (3390 / 6371)))"
proof -
  have m: "PLANETS ''Mars'' = Some \<lparr>distance_au = 1.524, mass_earth = 0.107, radius_km = 3390,
                 day_hours = 24.6, year_days = 686.97, moons = 2\<rparr>"
    by (simp add: PLANETS_def PLANETS_items_def)
  show ?thesis
    using escape_velocity_spec [THEN conjunct2, rule_format, OF conjI, OF m PLANETS_Earth] m PLANETS_Earth
    by simp
qed

text \<open>
  Claim C5. For every planet of \<open>PLANETS\<close> \<open>surface_gravity\<close> returns
  \<open>mass_earth / radius_ratio ^ 2\<close>, with \<open>radius_ratio\<close> relative to Earth's radius, and
  for Earth it returns exactly \<open>1.0\<close>.
\<close>

theorem surface_gravity_spec:
  "surface_gravity ''Earth'' = Inr 1.0 \<and>
   (\<forall>n p e. PLANETS n = Some p \<and> PLANETS ''Earth'' = Some e \<longrightarrow>
      surface_gravity n =
        Inr (mass_earth p / (real_of_int (radius_km p) / real_of_int (radius_km e)) ^ 2))"
proof (intro conjI allI impI)
  show "surface_gravity ''Earth'' = Inr 1.0"
    by (simp add: surface_gravity_found [OF PLANETS_Earth])
next
  fix n p e
  assume h: "PLANETS n = Some p \<and> PLANETS ''Earth'' = Some e"
  then have "radius_km e = 6371"
    by (auto simp: PLANETS_Earth)
  then show "surface_gravity n =
        Inr (mass_earth p / (real_of_int (radius_km p) / real_of_int (radius_km e)) ^ 2)"
    using h by (simp add: surface_gravity_found)
qed

theorem surface_gravity_spec_witness:
  "PLANETS ''Mars'' = Some \<lparr>distance_au = 1.524, mass_earth = 0.107, radius_km = 3390,
                 day_hours = 24.6, year_days = 686.97, moons = 2\<rparr> \<and>
   PLANETS ''Earth'' = Some \<lparr>distance_au = 1.0, mass_earth = 1.0, radius_km = 6371,
                  day_hours = 24, year_days = 365.25, moons = 1\<rparr> \<and>
   surface_gravity ''Mars'' = Inr (0.107 / (3390 / 6371) ^ 2)"
proof -
  have m: "PLANETS ''Mars'' = Some \<lparr>distance_au = 1.524, mass_earth = 0.107, radius_km = 3390,
                 day_hours = 24.6, year_days = 686.97, moons = 2\<rparr>"
    by (simp add: PLANETS_def PLANETS_items_def)
  show ?thesis
    using surface_gravity_spec [THEN conjunct2, rule_format, OF conjI, OF m PLANETS_Earth] m PLANETS_Earth
    by simp
qed


text \<open>
  Claim C7. For every planet of \<open>PLANETS\<close> the result of \<open>habitability_check\<close> has
  \<open>in_habitable_zone\<close> true iff \<open>0.95 < distance_au < 1.37\<close>, \<open>suitable_surface_gravity\<close>
  true iff \<open>0.5 < surface_gravity < 2.0\<close>, and a score that counts these two booleans
  and the constant \<open>True\<close> of \<open>has_stable_orbit\<close>. Earth scores 3 with both booleans
  true, and Mercury is not in the habitable zone.
\<close>

theorem habitability_check_spec:
  "(\<forall>n p. PLANETS n = Some p \<longrightarrow>
      (\<exists>g. surface_gravity n = Inr g \<and>
         habitability_check n =
           Inr \<lparr>hab_planet = n,
                in_habitable_zone = (0.95 < distance_au p \<and> distance_au p < 1.37),
                suitable_surface_gravity = (0.5 < g \<and> g < 2.0),
                habitability_score =
                  of_bool (0.95 < distance_au p \<and> distance_au p < 1.37) +
                  of_bool (0.5 < g \<and> g < 2.0) + of_bool True,
                hab_notes = habitability_notes\<rparr>)) \<and>
   habitability_check ''Earth'' =
     Inr \<lparr>hab_planet = ''Earth'', in_habitable_zone = True, suitable_surface_gravity = True,
          habitability_score = 3, hab_notes = habitability_notes\<rparr> \<and>
   (\<exists>h. habitability_check ''Mercury'' = Inr h \<and> \<not> in_habitable_zone h)"
proof (intro conjI allI impI)
  fix n p
  assume h: "PLANETS n = Some p"
  show "\<exists>g. surface_gravity n = Inr g \<and>
         habitability_check n =
           Inr \<lparr>hab_planet = n,
                in_habitable_zone = (0.95 < distance_au p \<and> distance_au p < 1.37),
                suitable_surface_gravity = (0.5 < g \<and> g < 2.0),
                habitability_score =
                  of_bool (0.95 < distance_au p \<and> distance_au p < 1.37) +
                  of_bool (0.5 < g \<and> g < 2.0) + of_bool True,
                hab_notes = habitability_notes\<rparr>"
    using surface_gravity_found [OF h] habitability_check_found [OF h] by blast
next
  show "habitability_check ''Earth'' =
     Inr \<lparr>hab_planet = ''Earth'', in_habitable_zone = True, suitable_surface_gravity = True,
          habitability_score = 3, hab_notes = habitability_notes\<rparr>"
    by (rule habitability_check_Earth)
next
  show "\<exists>h. habitability_check ''Mercury'' = Inr h \<and> \<not> in_habitable_zone h"
    by (simp add: habitability_check_Mercury)
qed

theorem habitability_check_spec_witness:
  "PLANETS ''Mars'' = Some \<lparr>distance_au = 1.524, mass_earth = 0.107, radius_km = 3390,
                 day_hours = 24.6, year_days = 686.97, moons = 2\<rparr> \<and>
   (\<exists>h. habitability_check ''Mars'' = Inr h \<and> \<not> in_habitable_zone h \<and>
        habitability_score h = of_bool (suitable_surface_gravity h) + 1)"
proof -
  have m: "PLANETS ''Mars'' = Some \<lparr>distance_au = 1.524, mass_earth = 0.107, radius_km = 3390,
                 day_hours = 24.6, year_days = 686.97, moons = 2\<rparr>"
    by (simp add: PLANETS_def PLANETS_items_def)
  show ?thesis
    using habitability_check_spec [THEN conjunct1, rule_format, OF m] m
    by auto
qed



text \<open>
  Claim C9, as stated, fails on the diameter of Uranus: the dataclass gives
  \<open>diameter_km = 50724\<close>, which is exactly twice the \<open>radius_km = 25362\<close> of the
  \<open>PLANETS\<close> dictionary, so the two sources give the same diameter.
\<close>

theorem uranus_diameter_counterexample:
  "PLANETS ''Uranus'' = Some \<lparr>distance_au = 19.191, mass_earth = 14.5, radius_km = 25362,
                   day_hours = 17.2, year_days = 30589, moons = 27\<rparr> \<and>
   get_planet_by_name SolarSystem_init ''Uranus'' = Inr (Some uranus) \<and>
   diameter_km uranus = 2 * 25362"
proof -
  have "first_match create_planets ''Uranus'' = Some uranus"
    by (rule first_match_distinct [OF distinct_lowered_names])
       (simp_all add: create_planets_def uranus_def)
  then show ?thesis
    by (simp add: PLANETS_Uranus get_planet_by_name_def SolarSystem_init_def)
       (simp add: uranus_def)
qed

text \<open>
  Claim C9, amended. The two source files carry independent catalogs whose records
  disagree for the same planet: for Uranus they give two different moon counts (27 in
  \<open>PLANETS\<close>, 28 in the dataclass), while the diameter of Uranus is the same in both
  (\<open>diameter_km = 2 * radius_km\<close>); a diameter on which they differ is Mercury's
  (4879 against \<open>2 * 2440 = 4880\<close>).
\<close>

theorem catalogs_disagree:
  "\<exists>u m. PLANETS ''Uranus'' = Some u \<and> PLANETS ''Mercury'' = Some m \<and>
     get_planet_by_name SolarSystem_init ''Uranus'' = Inr (Some uranus) \<and>
     get_planet_by_name SolarSystem_init ''Mercury'' = Inr (Some mercury) \<and>
     moons u = 27 \<and> planet_moons uranus = 28 \<and>
     diameter_km uranus = 2 * radius_km u \<and>
     diameter_km mercury = 4879 \<and> 2 * radius_km m = 4880"
proof -
  have "first_match create_planets ''Uranus'' = Some uranus"
    by (rule first_match_distinct [OF distinct_lowered_names])
       (simp_all add: create_planets_def uranus_def)
  moreover have "first_match create_planets ''Mercury'' = Some mercury"
    by (rule first_match_distinct [OF distinct_lowered_names])
       (simp_all add: create_planets_def mercury_def)
  ultimately show ?thesis
    by (simp add: PLANETS_Uranus PLANETS_Mercury get_planet_by_name_def SolarSystem_init_def)
       (simp add: uranus_def mercury_def)
qed

text \<open>
  Claim C10. For every planet name of \<open>PLANETS\<close> the habitability score that
  \<open>habitability_check\<close> returns lies between 1 and 3 inclusive: it is never 0, because
  \<open>has_stable_orbit\<close> always contributes 1.
\<close>

theorem habitability_score_range:
  "\<forall>n p. PLANETS n = Some p \<longrightarrow>
     (\<exists>h. habitability_check n = Inr h \<and> 1 \<le> habitability_score h \<and> habitability_score h \<le> 3)"
proof (intro allI impI)
  fix n p
  assume h: "PLANETS n = Some p"
  show "\<exists>h. habitability_check n = Inr h \<and> 1 \<le> habitability_score h \<and> habitability_score h \<le> 3"
    by (simp add: habitability_check_found [OF h] of_bool_def)
qed

theorem habitability_score_range_witness:
  "PLANETS ''Venus'' = Some \<lparr>distance_au = 0.723, mass_earth = 0.815, radius_km = 6052,
                  day_hours = 5832, year_days = 224.70, moons = 0\<rparr> \<and>
   (\<exists>h. habitability_check ''Venus'' = Inr h \<and> 1 \<le> habitability_score h \<and> habitability_score h \<le> 3)"
proof -
  have v: "PLANETS ''Venus'' = Some \<lparr>distance_au = 0.723, mass_earth = 0.815, radius_km = 6052,
                  day_hours = 5832, year_days = 224.70, moons = 0\<rparr>"
    by (simp add: PLANETS_def PLANETS_items_def)
  show ?thesis
    using habitability_score_range [rule_format, OF v] v by simp
qed

end
